theory Spec2Isabelle
  imports Main "HOL-Library.Char_ord" "HOL-Library.Sublist"
begin

section \<open>External authorization server: shallow embedding\<close>

text \<open>
  The repository holds two versions of one external authorization server.
  \<^item> \<^verbatim>\<open>src/ext_authz/server/main.go\<close> decides by exact match of the header
    \<^verbatim>\<open>x-ext-authz\<close> against \<^verbatim>\<open>allow\<close>. Its functions keep their names here.
  \<^item> \<^verbatim>\<open>src/unnamed/part_000\<close> decides by a bearer token in the header
    \<^verbatim>\<open>Authorization\<close>. Its functions carry the suffix \<open>_bearer\<close>, except \<open>check\<close>,
    which only that file has.
  Go strings are byte sequences and are modelled as \<^typ>\<open>string\<close>.
\<close>

subsection \<open>Go standard library: package strings\<close>

text \<open>
  \<^verbatim>\<open>func HasPrefix(s, prefix string) bool { return len(s) >= len(prefix) && s[:len(prefix)] == prefix }\<close>
\<close>

definition HasPrefix :: "string \<Rightarrow> string \<Rightarrow> bool" where
  "HasPrefix s pre = (length s \<ge> length pre \<and> take (length pre) s = pre)"

text \<open>
  \<^verbatim>\<open>func TrimPrefix(s, prefix string) string { if HasPrefix(s, prefix) { return s[len(prefix):] }; return s }\<close>
\<close>

definition TrimPrefix :: "string \<Rightarrow> string \<Rightarrow> string" where
  "TrimPrefix s pre = (if HasPrefix s pre then drop (length pre) s else s)"

subsection \<open>Messages of the gRPC authorization API\<close>

text \<open>
  The message types come from go-control-plane and genproto; only the fields the server
  reads or writes are kept. A Go pointer to a message is an \<open>option\<close> (\<open>None\<close> is nil).
  A Go \<^verbatim>\<open>map[string]string\<close> is a partial function; the nil map is \<^term>\<open>Map.empty\<close>.
  The fields of the HTTP attributes carry the prefix \<open>Http_\<close>, and the field
  \<^verbatim>\<open>Header\<close> of \<^verbatim>\<open>HeaderValueOption\<close> is \<open>OptHeader\<close>, to keep them apart from the fields
  of the same name in the other types.
\<close>

record AttributeContext_HttpRequest =
  Http_Method :: string
  Http_Headers :: "string \<rightharpoonup> string"
  Http_Path :: string
  Http_Host :: string

record AttributeContext_Request =
  Http :: "AttributeContext_HttpRequest option"

record AttributeContext =
  Request :: "AttributeContext_Request option"

record CheckRequest =
  Attributes :: "AttributeContext option"

record HeaderValue =
  Key :: string
  Value :: string

record HeaderValueOption =
  OptHeader :: "HeaderValue option"

record OkHttpResponse =
  Headers :: "HeaderValueOption list"

datatype CheckResponse_HttpResponse =
    CheckResponse_OkResponse OkHttpResponse
  | CheckResponse_DeniedResponse "HeaderValueOption list"

record rpc_Status =
  Code :: int

record CheckResponse =
  HttpResponse :: "CheckResponse_HttpResponse option"
  Status :: "rpc_Status option"

text \<open>The status codes of \<^verbatim>\<open>google/rpc/code.proto\<close> that the server uses.\<close>

definition rpc_OK :: int where
  "rpc_OK = 0"

definition rpc_PERMISSION_DENIED :: int where
  "rpc_PERMISSION_DENIED = 7"

text \<open>
  The generated getters are nil-safe: on a nil receiver they return the zero value of
  the field (nil, the nil map, the empty string).
\<close>

definition GetAttributes :: "CheckRequest option \<Rightarrow> AttributeContext option" where
  "GetAttributes x = (case x of None \<Rightarrow> None | Some m \<Rightarrow> Attributes m)"

definition GetRequest :: "AttributeContext option \<Rightarrow> AttributeContext_Request option" where
  "GetRequest x = (case x of None \<Rightarrow> None | Some m \<Rightarrow> Request m)"

definition GetHttp :: "AttributeContext_Request option \<Rightarrow> AttributeContext_HttpRequest option" where
  "GetHttp x = (case x of None \<Rightarrow> None | Some m \<Rightarrow> Http m)"

definition GetHeaders :: "AttributeContext_HttpRequest option \<Rightarrow> (string \<rightharpoonup> string)" where
  "GetHeaders x = (case x of None \<Rightarrow> Map.empty | Some m \<Rightarrow> Http_Headers m)"

definition GetHost :: "AttributeContext_HttpRequest option \<Rightarrow> string" where
  "GetHost x = (case x of None \<Rightarrow> [] | Some m \<Rightarrow> Http_Host m)"

definition GetPath :: "AttributeContext_HttpRequest option \<Rightarrow> string" where
  "GetPath x = (case x of None \<Rightarrow> [] | Some m \<Rightarrow> Http_Path m)"

text \<open>
  Indexing a Go map, \<^verbatim>\<open>m[k]\<close>: the value stored under exactly the key \<open>k\<close>, or the
  zero value (the empty string) when the key is missing or the map is nil.
\<close>

definition map_index :: "(string \<rightharpoonup> string) \<Rightarrow> string \<Rightarrow> string" where
  "map_index m k = (case m k of None \<Rightarrow> [] | Some v \<Rightarrow> v)"

subsection \<open>Go standard library: HTTP headers\<close>

text \<open>
  \<^verbatim>\<open>validHeaderFieldByte\<close> of net/textproto: the token characters of RFC 7230, that is
  letters, digits and the bytes \<^verbatim>\<open>!#$%&'*+-.^_`|~\<close>.
\<close>

definition isLowerASCII :: "char \<Rightarrow> bool" where
  "isLowerASCII c = (CHR ''a'' \<le> c \<and> c \<le> CHR ''z'')"

definition isUpperASCII :: "char \<Rightarrow> bool" where
  "isUpperASCII c = (CHR ''A'' \<le> c \<and> c \<le> CHR ''Z'')"

definition isDigitASCII :: "char \<Rightarrow> bool" where
  "isDigitASCII c = (CHR ''0'' \<le> c \<and> c \<le> CHR ''9'')"

definition validHeaderFieldByte :: "char \<Rightarrow> bool" where
  "validHeaderFieldByte c =
     (isLowerASCII c \<or> isUpperASCII c \<or> isDigitASCII c \<or>
      c \<in> set [CHR ''!'', CHR ''#'', CHR ''$'', CHR ''%'', CHR ''&'', CHR 0x27, CHR ''*'',
                 CHR ''+'', CHR ''-'', CHR ''.'', CHR ''^'', CHR ''_'', CHR 0x60, CHR ''|'',
                 CHR ''~''])"

text \<open>The constant \<^verbatim>\<open>toLower = 'a' - 'A'\<close> of net/textproto is 32.\<close>

definition toUpperASCII :: "char \<Rightarrow> char" where
  "toUpperASCII c = (if isLowerASCII c then char_of (of_char c - (32::nat)) else c)"

definition toLowerASCII :: "char \<Rightarrow> char" where
  "toLowerASCII c = (if isUpperASCII c then char_of (of_char c + (32::nat)) else c)"

text \<open>
  The canonicalising loop of \<^verbatim>\<open>canonicalMIMEHeaderKey\<close>: the flag \<open>upper\<close> holds for the
  first byte and for the byte after each hyphen.
  \<^verbatim>\<open>
  upper := true
  for i, c := range a {
      if upper && 'a' <= c && c <= 'z' { c -= toLower
      } else if !upper && 'A' <= c && c <= 'Z' { c += toLower }
      a[i] = c
      upper = c == '-'
  }
  \<close>
\<close>

fun canonicalize :: "bool \<Rightarrow> string \<Rightarrow> string" where
  "canonicalize upper [] = []"
| "canonicalize upper (c # cs) =
     (let c' = (if upper \<and> isLowerASCII c then toUpperASCII c
                else if \<not> upper \<and> isUpperASCII c then toLowerASCII c
                else c)
      in c' # canonicalize (c' = CHR ''-'') cs)"

text \<open>
  \<^verbatim>\<open>textproto.CanonicalMIMEHeaderKey\<close>: "The canonicalization converts the first letter and
  any letter following a hyphen to upper case; the rest are converted to lowercase. If s
  contains a space or invalid header field bytes, it is returned without modifications."
  (A space is not a valid header field byte.)
\<close>

definition CanonicalMIMEHeaderKey :: "string \<Rightarrow> string" where
  "CanonicalMIMEHeaderKey s =
     (if list_all validHeaderFieldByte s then canonicalize True s else s)"

text \<open>
  \<^verbatim>\<open>http.Header\<close> is a \<^verbatim>\<open>map[string][]string\<close>; a missing key reads as the nil slice,
  here the empty list. \<^verbatim>\<open>Get\<close>, \<^verbatim>\<open>Set\<close> and \<^verbatim>\<open>Add\<close> work on the canonical form of
  the key they are given.
\<close>

type_synonym http_Header = "string \<Rightarrow> string list"

definition Header_empty :: http_Header where
  "Header_empty = (\<lambda>k. [])"

definition Header_Get :: "http_Header \<Rightarrow> string \<Rightarrow> string" where
  "Header_Get h key = (case h (CanonicalMIMEHeaderKey key) of [] \<Rightarrow> [] | v # vs \<Rightarrow> v)"

definition Header_Set :: "http_Header \<Rightarrow> string \<Rightarrow> string \<Rightarrow> http_Header" where
  "Header_Set h key v = h(CanonicalMIMEHeaderKey key := [v])"

definition Header_Add :: "http_Header \<Rightarrow> string \<Rightarrow> string \<Rightarrow> http_Header" where
  "Header_Add h key v =
     h(CanonicalMIMEHeaderKey key := h (CanonicalMIMEHeaderKey key) @ [v])"

text \<open>
  The header of an inbound request: the server reads the header fields off the wire in
  order and appends each value under the canonical form of its name
  (\<^verbatim>\<open>textproto.Reader.ReadMIMEHeader\<close>). The splitting of the lines into names and
  values, and the rejection of malformed lines, are not modelled.
\<close>

fun ReadMIMEHeader :: "http_Header \<Rightarrow> (string \<times> string) list \<Rightarrow> http_Header" where
  "ReadMIMEHeader h [] = h"
| "ReadMIMEHeader h ((name, v) # rest) = ReadMIMEHeader (Header_Add h name v) rest"

text \<open>
  \<^verbatim>\<open>http.Request\<close>, with the fields the handlers read (\<open>URL\<close> is the request URL as
  \<^verbatim>\<open>%s\<close> prints it).
\<close>

record http_Request =
  Method :: string
  Proto :: string
  Host :: string
  URL :: string
  Header :: http_Header

text \<open>
  \<^verbatim>\<open>http.ResponseWriter\<close>: \<open>Header()\<close> is the header map the handler edits; the first
  \<^verbatim>\<open>WriteHeader(code)\<close> sends the status line with the header map as it is then, and
  any later call is ignored.
\<close>

record ResponseWriter =
  rw_Header :: http_Header
  rw_written :: "(int \<times> http_Header) option"

definition NewResponseWriter :: ResponseWriter where
  "NewResponseWriter = \<lparr>rw_Header = Header_empty, rw_written = None\<rparr>"

definition rw_Header_Set :: "string \<Rightarrow> string \<Rightarrow> ResponseWriter \<Rightarrow> ResponseWriter" where
  "rw_Header_Set key v w = w\<lparr>rw_Header := Header_Set (rw_Header w) key v\<rparr>"

definition WriteHeader :: "int \<Rightarrow> ResponseWriter \<Rightarrow> ResponseWriter" where
  "WriteHeader code w =
     (case rw_written w of
        None \<Rightarrow> w\<lparr>rw_written := Some (code, rw_Header w)\<rparr>
      | Some _ \<Rightarrow> w)"

definition StatusOK :: int where
  "StatusOK = 200"

definition StatusForbidden :: int where
  "StatusForbidden = 403"

subsection \<open>Logging\<close>

text \<open>
  A call of \<^verbatim>\<open>log.Printf\<close> is recorded as its format string and its arguments; the
  formatting itself is not modelled.
\<close>

datatype log_arg =
    ArgString string
  | ArgAttributes "AttributeContext option"
  | ArgHeader http_Header

type_synonym log_line = "string \<times> log_arg list"

subsection \<open>The exact-match server: the checks\<close>

text \<open>The constants of \<^verbatim>\<open>main.go\<close>.\<close>

definition checkHeader :: string where
  "checkHeader = ''x-ext-authz''"

definition allowedValue :: string where
  "allowedValue = ''allow''"

definition resultHeader :: string where
  "resultHeader = ''x-ext-authz-result''"

text \<open>
  What a handler of the gRPC service returns: the Go pair of response and error
  (\<open>None\<close> is nil), and the lines it logged.
\<close>

record rpc_result =
  rpc_response :: "CheckResponse option"
  rpc_err :: "string option"
  rpc_logged :: "log_line list"

text \<open>
  \<^verbatim>\<open>func (s *ExtAuthzServer) Check(ctx, request *auth.CheckRequest)\<close>. The context is
  not used. Every access to the request goes through the nil-safe getters, so the request
  pointer itself may be nil. Both branches build an \<^verbatim>\<open>OkResponse\<close> and return a nil
  error.
\<close>

definition Check :: "CheckRequest option \<Rightarrow> rpc_result" where
  "Check request =
     (if allowedValue =
           map_index (GetHeaders (GetHttp (GetRequest (GetAttributes request)))) checkHeader
      then
        \<lparr>rpc_response = Some
           \<lparr>HttpResponse = Some (CheckResponse_OkResponse
              \<lparr>Headers = [\<lparr>OptHeader = Some \<lparr>Key = resultHeader, Value = ''allowed''\<rparr>\<rparr>]\<rparr>),
            Status = Some \<lparr>Code = rpc_OK\<rparr>\<rparr>,
         rpc_err = None,
         rpc_logged =
           [(''[gRPC][allowed]: %s%s with attributes %v\<newline>'',
             [ArgString (GetHost (GetHttp (GetRequest (GetAttributes request)))),
              ArgString (GetPath (GetHttp (GetRequest (GetAttributes request)))),
              ArgAttributes (GetAttributes request)])]\<rparr>
      else
        \<lparr>rpc_response = Some
           \<lparr>HttpResponse = Some (CheckResponse_OkResponse
              \<lparr>Headers = [\<lparr>OptHeader = Some \<lparr>Key = resultHeader, Value = ''denied''\<rparr>\<rparr>]\<rparr>),
            Status = Some \<lparr>Code = rpc_PERMISSION_DENIED\<rparr>\<rparr>,
         rpc_err = None,
         rpc_logged =
           [(''[gRPC][ denied]: %s%s with attributes %v\<newline>'',
             [ArgString (GetHost (GetHttp (GetRequest (GetAttributes request)))),
              ArgString (GetPath (GetHttp (GetRequest (GetAttributes request)))),
              ArgAttributes (GetAttributes request)])]\<rparr>)"

text \<open>
  \<^verbatim>\<open>func (s *ExtAuthzServer) ServeHTTP(response http.ResponseWriter, request *http.Request)\<close>:
  the response writer after the handler has run, and the lines it logged.
\<close>

definition ServeHTTP :: "ResponseWriter \<Rightarrow> http_Request \<Rightarrow> ResponseWriter \<times> log_line list" where
  "ServeHTTP response request =
     (if allowedValue = Header_Get (Header request) checkHeader
      then
        (WriteHeader StatusOK (rw_Header_Set resultHeader ''allowed'' response),
         [(''[HTTP][allowed]: %s %s%s with headers: %s\<newline>'',
           [ArgString (Method request), ArgString (Host request), ArgString (URL request),
            ArgHeader (Header request)])])
      else
        (WriteHeader StatusForbidden (rw_Header_Set resultHeader ''denied'' response),
         [(''[HTTP][ denied]: %s %s%s with headers: %s\<newline>'',
           [ArgString (Method request), ArgString (Host request), ArgString (URL request),
            ArgHeader (Header request)])]))"

subsection \<open>The bearer-token server: the checks\<close>

text \<open>
  \<^verbatim>\<open>
  func check(header string) bool {
      var token string
      if strings.HasPrefix(header, "Bearer ") {
          token = strings.TrimPrefix(header, "Bearer ")
      }
      return token == "allow"
  }
  \<close>
\<close>

definition check :: "string \<Rightarrow> bool" where
  "check header =
     (let token = (if HasPrefix header ''Bearer '' then TrimPrefix header ''Bearer '' else [])
      in token = ''allow'')"

text \<open>
  The handler of this file logs the field \<^verbatim>\<open>request.Attributes\<close> directly, before
  anything else: on a nil request pointer that is a nil dereference, and the handler
  panics. The gRPC runtime always passes an allocated message.
\<close>

datatype panic = NilPointerDereference

definition Check_bearer :: "CheckRequest option \<Rightarrow> panic + rpc_result" where
  "Check_bearer request =
     (case request of
        None \<Rightarrow> Inl NilPointerDereference
      | Some r \<Rightarrow>
          (let l = [(''gRPC check attributes: %s\<newline>'', [ArgAttributes (Attributes r)])]
           in if check (map_index
                          (GetHeaders (GetHttp (GetRequest (GetAttributes request))))
                          ''Authorization'')
              then Inr
                \<lparr>rpc_response = Some
                   \<lparr>HttpResponse = Some (CheckResponse_OkResponse
                      \<lparr>Headers = [\<lparr>OptHeader = Some
                         \<lparr>Key = ''Set-Cookie'',
                          Value = ''xt-AuthZ-Custom-Cookie=abcd5678''\<rparr>\<rparr>]\<rparr>),
                    Status = Some \<lparr>Code = rpc_OK\<rparr>\<rparr>,
                 rpc_err = None,
                 rpc_logged = l\<rparr>
              else Inr
                \<lparr>rpc_response = Some
                   \<lparr>HttpResponse = None,
                    Status = Some \<lparr>Code = rpc_PERMISSION_DENIED\<rparr>\<rparr>,
                 rpc_err = None,
                 rpc_logged = l\<rparr>))"

definition ServeHTTP_bearer ::
  "ResponseWriter \<Rightarrow> http_Request \<Rightarrow> ResponseWriter \<times> log_line list" where
  "ServeHTTP_bearer response request =
     (let l = [(''%s check %s%s, headers: %s\<newline>'',
                [ArgString (Proto request), ArgString (Host request), ArgString (URL request),
                 ArgHeader (Header request)])]
      in if check (Header_Get (Header request) ''Authorization'')
         then (WriteHeader StatusOK
                 (rw_Header_Set ''Set-Cookie'' ''Ext-AuthZ-Custom-Cookie=abcd1234'' response), l)
         else (WriteHeader StatusForbidden response, l))"

subsection \<open>What a caller observes of a check\<close>

text \<open>The status code of a gRPC result, when it has a response with a status.\<close>

definition rpc_code :: "rpc_result \<Rightarrow> int option" where
  "rpc_code res =
     (case rpc_response res of
        None \<Rightarrow> None
      | Some r \<Rightarrow> (case Status r of None \<Rightarrow> None | Some st \<Rightarrow> Some (Code st)))"

text \<open>
  The headers a gRPC result asks the proxy to inject, as pairs of key and value: those of
  its \<^verbatim>\<open>OkResponse\<close>, none when the response has no \<^verbatim>\<open>HttpResponse\<close>.
\<close>

definition rpc_headers :: "rpc_result \<Rightarrow> (string \<times> string) list" where
  "rpc_headers res =
     (case rpc_response res of
        None \<Rightarrow> []
      | Some r \<Rightarrow>
          (case HttpResponse r of
             None \<Rightarrow> []
           | Some (CheckResponse_OkResponse ok) \<Rightarrow>
               concat (map (\<lambda>hvo. case OptHeader hvo of
                                     None \<Rightarrow> []
                                   | Some hv \<Rightarrow> [(Key hv, Value hv)]) (Headers ok))
           | Some (CheckResponse_DeniedResponse hs) \<Rightarrow>
               concat (map (\<lambda>hvo. case OptHeader hvo of
                                     None \<Rightarrow> []
                                   | Some hv \<Rightarrow> [(Key hv, Value hv)]) hs)))"

text \<open>The status line and the header map an HTTP handler has sent.\<close>

definition http_status :: "ResponseWriter \<Rightarrow> int option" where
  "http_status w = map_option fst (rw_written w)"

definition http_sent :: "ResponseWriter \<Rightarrow> http_Header" where
  "http_sent w = (case rw_written w of None \<Rightarrow> Header_empty | Some (code, h) \<Rightarrow> h)"

subsection \<open>Listeners and the process\<close>

text \<open>
  The network is a parameter. For each listener, \<open>Listen\<close> gives the result of its call
  of \<^verbatim>\<open>net.Listen("tcp", address)\<close>, an error or the port bound, and \<open>Serve\<close> says whether
  its accept loop runs forever or returns, with an error or nil.
\<close>

datatype serve_result = Serves_forever | Serve_returns "string option"

record env =
  grpc_Listen :: "string \<Rightarrow> string + int"
  grpc_Serve :: serve_result
  http_Listen :: "string \<Rightarrow> string + int"
  http_Serve :: serve_result

text \<open>
  What a goroutine does, in order: calls of \<^verbatim>\<open>net.Listen\<close>, sends on the port
  channels, calls of \<^verbatim>\<open>log.Printf\<close> and \<^verbatim>\<open>log.Fatalf\<close> (by their format strings), the
  start of the accept loop, and \<^verbatim>\<open>wg.Done()\<close>.
\<close>

datatype event =
    Listen string
  | Send string int
  | Printf string
  | Fatalf string
  | Serve
  | WgDone

text \<open>
  How a goroutine ends: \<^verbatim>\<open>log.Fatalf\<close> logs and calls \<^verbatim>\<open>os.Exit(1)\<close>, which ends the
  process at once, without running deferred functions; else the function returns, after
  its deferred function; else it stays in the accept loop.
\<close>

datatype goroutine_end = Exits int | Returns | Blocks

fun listened :: "event list \<Rightarrow> string list" where
  "listened [] = []"
| "listened (Listen a # es) = a # listened es"
| "listened (e # es) = listened es"

text \<open>
  The process: \<^verbatim>\<open>wg.Add(2)\<close>, two goroutines, \<^verbatim>\<open>wg.Wait()\<close>, then the caller returns
  up to the end of \<^verbatim>\<open>main\<close>, which is exit status 0. An \<^verbatim>\<open>os.Exit\<close> in either goroutine
  ends the process with its status; while a goroutine stays in its accept loop and
  neither exits, \<^verbatim>\<open>wg.Wait()\<close> does not return and the process keeps running.
\<close>

datatype process_end = Exited int | Running

fun wg_Wait :: "goroutine_end \<Rightarrow> goroutine_end \<Rightarrow> process_end" where
  "wg_Wait (Exits c) _ = Exited c"
| "wg_Wait _ (Exits c) = Exited c"
| "wg_Wait Returns Returns = Exited 0"
| "wg_Wait _ _ = Running"

record process =
  grpc_run :: "event list \<times> goroutine_end"
  http_run :: "event list \<times> goroutine_end"
  ended :: process_end

text \<open>The flags \<^verbatim>\<open>-http\<close> and \<^verbatim>\<open>-grpc\<close>, after \<^verbatim>\<open>flag.Parse()\<close>, and their defaults.\<close>

record flags =
  httpPort :: string
  grpcPort :: string

definition default_flags :: flags where
  "default_flags = \<lparr>httpPort = ''8000'', grpcPort = ''9000''\<rparr>"

subsubsection \<open>The exact-match server\<close>

text \<open>
  \<^verbatim>\<open>func (s *ExtAuthzServer) startGRPC(address string, wg *sync.WaitGroup)\<close>. The port
  channels have capacity one and each is sent to once, so the send does not block.
\<close>

definition startGRPC :: "env \<Rightarrow> string \<Rightarrow> event list \<times> goroutine_end" where
  "startGRPC e address =
     (case grpc_Listen e address of
        Inl er \<Rightarrow> ([Listen address, Fatalf ''Failed to start gRPC server: %v''], Exits 1)
      | Inr port \<Rightarrow>
          (let started = [Listen address, Send ''grpcPort'' port,
                          Printf ''Starting gRPC server at %s'', Serve]
           in case grpc_Serve e of
                Serves_forever \<Rightarrow> (started, Blocks)
              | Serve_returns (Some er) \<Rightarrow>
                  (started @ [Fatalf ''Failed to serve gRPC server: %v''], Exits 1)
              | Serve_returns None \<Rightarrow>
                  (started @ [WgDone, Printf ''Stopped gRPC server''], Returns)))"

text \<open>\<^verbatim>\<open>func (s *ExtAuthzServer) startHTTP(address string, wg *sync.WaitGroup)\<close>.\<close>

definition startHTTP :: "env \<Rightarrow> string \<Rightarrow> event list \<times> goroutine_end" where
  "startHTTP e address =
     (case http_Listen e address of
        Inl er \<Rightarrow> ([Listen address, Fatalf ''Failed to create HTTP server: %v''], Exits 1)
      | Inr port \<Rightarrow>
          (let started = [Listen address, Send ''httpPort'' port,
                          Printf ''Starting HTTP server at %s'', Serve]
           in case http_Serve e of
                Serves_forever \<Rightarrow> (started, Blocks)
              | Serve_returns (Some er) \<Rightarrow>
                  (started @ [Fatalf ''Failed to start HTTP server: %v''], Exits 1)
              | Serve_returns None \<Rightarrow>
                  (started @ [WgDone, Printf ''Stopped HTTP server''], Returns)))"

text \<open>
  \<^verbatim>\<open>
  func (s *ExtAuthzServer) run(httpAddr, grpcAddr string) {
      var wg sync.WaitGroup
      wg.Add(2)
      go s.startGRPC(httpAddr, &wg)
      go s.startHTTP(grpcAddr, &wg)
      wg.Wait()
  }
  \<close>
\<close>

definition run :: "env \<Rightarrow> string \<Rightarrow> string \<Rightarrow> process" where
  "run e httpAddr grpcAddr =
     (let g = startGRPC e httpAddr;
          h = startHTTP e grpcAddr
      in \<lparr>grpc_run = g, http_run = h, ended = wg_Wait (snd g) (snd h)\<rparr>)"

text \<open>
  \<^verbatim>\<open>s.run(fmt.Sprintf(":%s", *httpPort), fmt.Sprintf(":%s", *grpcPort))\<close>
\<close>

definition main :: "env \<Rightarrow> flags \<Rightarrow> process" where
  "main e f = run e ('':'' @ httpPort f) ('':'' @ grpcPort f)"

subsubsection \<open>The bearer-token server\<close>

text \<open>Here a failure is logged with \<^verbatim>\<open>log.Printf\<close> and the function returns.\<close>

definition startGRPC_bearer :: "env \<Rightarrow> string \<Rightarrow> event list \<times> goroutine_end" where
  "startGRPC_bearer e address =
     (case grpc_Listen e address of
        Inl er \<Rightarrow>
          ([Listen address, Printf ''Failed to start gRPC server: %v'',
            WgDone, Printf ''Stopped gRPC server''], Returns)
      | Inr port \<Rightarrow>
          (let started = [Listen address, Printf ''Started gRPC server on %s'', Serve]
           in case grpc_Serve e of
                Serves_forever \<Rightarrow> (started, Blocks)
              | Serve_returns (Some er) \<Rightarrow>
                  (started @ [Printf ''Failed to serve gRPC server: %v'',
                              WgDone, Printf ''Stopped gRPC server''], Returns)
              | Serve_returns None \<Rightarrow>
                  (started @ [WgDone, Printf ''Stopped gRPC server''], Returns)))"

text \<open>
  \<^verbatim>\<open>(*http.Server).ListenAndServe\<close>: binds \<open>Addr\<close>, returns the error if that fails, and
  else serves on the listener.
\<close>

definition ListenAndServe :: "env \<Rightarrow> string \<Rightarrow> event list \<times> serve_result" where
  "ListenAndServe e address =
     (case http_Listen e address of
        Inl er \<Rightarrow> ([Listen address], Serve_returns (Some er))
      | Inr port \<Rightarrow> ([Listen address, Serve], http_Serve e))"

definition startHTTP_bearer :: "env \<Rightarrow> string \<Rightarrow> event list \<times> goroutine_end" where
  "startHTTP_bearer e address =
     (let (evs, r) = ListenAndServe e address;
          started = Printf ''Started HTTP server on %s'' # evs
      in case r of
           Serves_forever \<Rightarrow> (started, Blocks)
         | Serve_returns (Some er) \<Rightarrow>
             (started @ [Printf ''Failed to start HTTP server: %v'',
                         WgDone, Printf ''Stopped HTTP server''], Returns)
         | Serve_returns None \<Rightarrow>
             (started @ [WgDone, Printf ''Stopped HTTP server''], Returns))"

text \<open>
  The \<^verbatim>\<open>main\<close> of this file, after it has logged the two ports:
  \<^verbatim>\<open>
  wg.Add(2)
  go startGRPC(fmt.Sprintf(":%s", *grpcPort), &wg)
  go startHTTP(fmt.Sprintf(":%s", *httpPort), &wg)
  wg.Wait()
  \<close>
\<close>

definition main_bearer :: "env \<Rightarrow> flags \<Rightarrow> process" where
  "main_bearer e f =
     (let g = startGRPC_bearer e ('':'' @ grpcPort f);
          h = startHTTP_bearer e ('':'' @ httpPort f)
      in \<lparr>grpc_run = g, http_run = h, ended = wg_Wait (snd g) (snd h)\<rparr>)"

subsection \<open>Requests for stating the properties\<close>

text \<open>A gRPC request with all its nested attributes present.\<close>

definition rpc_request ::
  "string \<Rightarrow> string \<Rightarrow> string \<Rightarrow> (string \<rightharpoonup> string) \<Rightarrow> CheckRequest option" where
  "rpc_request method host path hs =
     Some \<lparr>Attributes = Some \<lparr>Request = Some \<lparr>Http = Some
       \<lparr>Http_Method = method, Http_Headers = hs, Http_Path = path, Http_Host = host\<rparr>\<rparr>\<rparr>\<rparr>"

text \<open>
  The credential a gRPC request carries under a key: what both versions of \<open>Check\<close>
  read, \<^verbatim>\<open>request.GetAttributes().GetRequest().GetHttp().GetHeaders()[key]\<close>.
\<close>

definition rpc_credential :: "CheckRequest option \<Rightarrow> string \<Rightarrow> string" where
  "rpc_credential request key =
     map_index (GetHeaders (GetHttp (GetRequest (GetAttributes request)))) key"


text \<open>
  The bearer-token rule in the words of the specification: if the value starts with the
  literal prefix \<^verbatim>\<open>Bearer \<close>, the token is the value without the prefix, otherwise the
  token is empty; the request is allowed iff the token is \<^verbatim>\<open>allow\<close>.
\<close>

definition bearer_rule_spec :: "string \<Rightarrow> bool" where
  "bearer_rule_spec v =
     ((if prefix ''Bearer '' v then drop (length ''Bearer '') v else []) = ''allow'')"

subsection \<open>Example requests and networks\<close>

text \<open>
  Two gRPC requests and two HTTP requests that carry the same credentials and differ in
  method, host, path and other headers. The HTTP headers are the fields as they come off
  the wire, in various spellings of their names.
\<close>

definition example_rpc_a :: CheckRequest where
  "example_rpc_a =
     \<lparr>Attributes = Some \<lparr>Request = Some \<lparr>Http = Some
       \<lparr>Http_Method = ''GET'',
        Http_Headers = [''x-ext-authz'' \<mapsto> ''allow'', ''Authorization'' \<mapsto> ''Bearer allow''],
        Http_Path = ''/one'', Http_Host = ''a.example''\<rparr>\<rparr>\<rparr>\<rparr>"

definition example_rpc_b :: CheckRequest where
  "example_rpc_b =
     \<lparr>Attributes = Some \<lparr>Request = Some \<lparr>Http = Some
       \<lparr>Http_Method = ''POST'',
        Http_Headers = [''user-agent'' \<mapsto> ''curl'', ''x-ext-authz'' \<mapsto> ''allow'',
                        ''Authorization'' \<mapsto> ''Bearer allow''],
        Http_Path = ''/two'', Http_Host = ''b.example''\<rparr>\<rparr>\<rparr>\<rparr>"

definition example_http_a :: http_Request where
  "example_http_a =
     \<lparr>Method = ''GET'', Proto = ''HTTP/1.1'', Host = ''a.example'', URL = ''/one'',
      Header = ReadMIMEHeader Header_empty
        [(''x-ext-authz'', ''allow''), (''Authorization'', ''Bearer allow'')]\<rparr>"

definition example_http_b :: http_Request where
  "example_http_b =
     \<lparr>Method = ''POST'', Proto = ''HTTP/2.0'', Host = ''b.example'', URL = ''/two'',
      Header = ReadMIMEHeader Header_empty
        [(''User-Agent'', ''curl''), (''X-Ext-Authz'', ''allow''),
         (''authorization'', ''Bearer allow'')]\<rparr>"


text \<open>
  Two header maps of a gRPC request that hold \<^verbatim>\<open>allow\<close> under different spellings of
  the header name.
\<close>

definition headers_capitalised :: "string \<rightharpoonup> string" where
  "headers_capitalised = [''X-Ext-Authz'' \<mapsto> ''allow'']"

definition headers_lower_case :: "string \<rightharpoonup> string" where
  "headers_lower_case = [''x-ext-authz'' \<mapsto> ''allow'']"

text \<open>
  Two networks: in the first every bind of the gRPC listener fails, in the second every
  bind of the HTTP listener; the other listener binds and serves forever.
\<close>

definition env_grpc_port_taken :: env where
  "env_grpc_port_taken =
     \<lparr>grpc_Listen = (\<lambda>a. Inl ''bind: address already in use''),
      grpc_Serve = Serves_forever,
      http_Listen = (\<lambda>a. Inr 8000),
      http_Serve = Serves_forever\<rparr>"

definition env_http_port_taken :: env where
  "env_http_port_taken =
     \<lparr>grpc_Listen = (\<lambda>a. Inr 9000),
      grpc_Serve = Serves_forever,
      http_Listen = (\<lambda>a. Inl ''bind: address already in use''),
      http_Serve = Serves_forever\<rparr>"

section \<open>Properties\<close>

subsection \<open>Auxiliary facts\<close>

text \<open>
The checks, as functions of the credential.
\<close>

lemma rpc_credential_request [simp]:
  "rpc_credential (rpc_request m h p hs) key = map_index hs key"
  by (simp add: rpc_credential_def rpc_request_def GetAttributes_def GetRequest_def
      GetHttp_def GetHeaders_def)

lemma Check_code:
  "rpc_code (Check request) =
     Some (if rpc_credential request checkHeader = ''allow''
           then rpc_OK else rpc_PERMISSION_DENIED)"
  by (simp add: Check_def rpc_code_def rpc_credential_def allowedValue_def eq_commute)

lemma Check_headers:
  "rpc_headers (Check request) =
     [(''x-ext-authz-result'',
       if rpc_credential request checkHeader = ''allow'' then ''allowed'' else ''denied'')]"
  by (simp add: Check_def rpc_headers_def rpc_credential_def allowedValue_def resultHeader_def
      eq_commute)

lemma Check_response:
  "rpc_response (Check request) = Some
     (if rpc_credential request checkHeader = ''allow''
      then \<lparr>HttpResponse = Some (CheckResponse_OkResponse
              \<lparr>Headers = [\<lparr>OptHeader = Some \<lparr>Key = resultHeader, Value = ''allowed''\<rparr>\<rparr>]\<rparr>),
            Status = Some \<lparr>Code = rpc_OK\<rparr>\<rparr>
      else \<lparr>HttpResponse = Some (CheckResponse_OkResponse
              \<lparr>Headers = [\<lparr>OptHeader = Some \<lparr>Key = resultHeader, Value = ''denied''\<rparr>\<rparr>]\<rparr>),
            Status = Some \<lparr>Code = rpc_PERMISSION_DENIED\<rparr>\<rparr>)"
  by (simp add: Check_def rpc_credential_def allowedValue_def eq_commute)

lemma Check_err: "rpc_err (Check request) = None"
  by (simp add: Check_def)

lemma Header_Get_Set [simp]: "Header_Get (Header_Set h key v) key = v"
  by (simp add: Header_Get_def Header_Set_def)

lemma ServeHTTP_status:
  "http_status (fst (ServeHTTP NewResponseWriter request)) =
     Some (if Header_Get (Header request) checkHeader = ''allow''
           then StatusOK else StatusForbidden)"
  by (simp add: ServeHTTP_def http_status_def WriteHeader_def rw_Header_Set_def
      NewResponseWriter_def allowedValue_def eq_commute)

lemma ServeHTTP_status_Set:
  "http_status (fst (ServeHTTP NewResponseWriter
       (q\<lparr>Header := Header_Set hdr checkHeader v\<rparr>))) =
     Some (if v = ''allow'' then StatusOK else StatusForbidden)"
  by (simp add: ServeHTTP_status)

lemma ServeHTTP_writer:
  "fst (ServeHTTP w request) =
     (if Header_Get (Header request) checkHeader = ''allow''
      then WriteHeader StatusOK (rw_Header_Set resultHeader ''allowed'' w)
      else WriteHeader StatusForbidden (rw_Header_Set resultHeader ''denied'' w))"
  by (simp add: ServeHTTP_def allowedValue_def eq_commute)

text \<open>
Prefixes and the bearer check.
\<close>

lemma HasPrefix_iff: "HasPrefix s pre = (\<exists>t. s = pre @ t)"
proof
  assume "HasPrefix s pre"
  then have "take (length pre) s = pre" by (simp add: HasPrefix_def)
  then have "s = pre @ drop (length pre) s" by (metis append_take_drop_id)
  then show "\<exists>t. s = pre @ t" ..
next
  assume "\<exists>t. s = pre @ t"
  then show "HasPrefix s pre" by (auto simp: HasPrefix_def)
qed

lemma TrimPrefix_append: "TrimPrefix (pre @ t) pre = t"
  by (simp add: TrimPrefix_def HasPrefix_def)

lemma check_append: "check (''Bearer '' @ t) = (t = ''allow'')"
proof -
  have "HasPrefix (''Bearer '' @ t) ''Bearer ''" by (auto simp: HasPrefix_iff)
  then show ?thesis unfolding check_def Let_def by (simp only: if_True TrimPrefix_append)
qed

lemma check_no_prefix: "\<not> HasPrefix v ''Bearer '' \<Longrightarrow> \<not> check v"
  unfolding check_def Let_def by simp

lemma check_iff: "check v = (v = ''Bearer allow'')"
proof (cases "HasPrefix v ''Bearer ''")
  case True
  then obtain t where "v = ''Bearer '' @ t" by (auto simp: HasPrefix_iff)
  then show ?thesis by (simp only: check_append) simp
next
  case False
  have "\<not> HasPrefix ''Bearer allow'' ''Bearer '' \<Longrightarrow> False" by (simp add: HasPrefix_def)
  with False show ?thesis using check_no_prefix by auto
qed

lemma Check_bearer_Some:
  "Check_bearer (Some r) = Inr
     \<lparr>rpc_response = Some
        (if rpc_credential (Some r) ''Authorization'' = ''Bearer allow''
         then \<lparr>HttpResponse = Some (CheckResponse_OkResponse
                 \<lparr>Headers = [\<lparr>OptHeader = Some
                    \<lparr>Key = ''Set-Cookie'', Value = ''xt-AuthZ-Custom-Cookie=abcd5678''\<rparr>\<rparr>]\<rparr>),
               Status = Some \<lparr>Code = rpc_OK\<rparr>\<rparr>
         else \<lparr>HttpResponse = None, Status = Some \<lparr>Code = rpc_PERMISSION_DENIED\<rparr>\<rparr>),
      rpc_err = None,
      rpc_logged = [(''gRPC check attributes: %s\<newline>'', [ArgAttributes (Attributes r)])]\<rparr>"
  by (simp add: Check_bearer_def rpc_credential_def check_iff Let_def)

lemma ServeHTTP_bearer_status:
  "http_status (fst (ServeHTTP_bearer NewResponseWriter request)) =
     Some (if Header_Get (Header request) ''Authorization'' = ''Bearer allow''
           then StatusOK else StatusForbidden)"
  by (simp add: ServeHTTP_bearer_def http_status_def WriteHeader_def rw_Header_Set_def
      NewResponseWriter_def check_iff Let_def)

lemma ServeHTTP_bearer_writer:
  "fst (ServeHTTP_bearer w request) =
     (if Header_Get (Header request) ''Authorization'' = ''Bearer allow''
      then WriteHeader StatusOK
             (rw_Header_Set ''Set-Cookie'' ''Ext-AuthZ-Custom-Cookie=abcd1234'' w)
      else WriteHeader StatusForbidden w)"
  by (simp add: ServeHTTP_bearer_def check_iff Let_def)

text \<open>
Canonical header names.
\<close>

lemma canon_resultHeader: "CanonicalMIMEHeaderKey resultHeader = ''X-Ext-Authz-Result''"
  by code_simp

lemma canon_Set_Cookie: "CanonicalMIMEHeaderKey ''Set-Cookie'' = ''Set-Cookie''"
  by code_simp

lemma Canonical_checkHeader: "CanonicalMIMEHeaderKey checkHeader = ''X-Ext-Authz''"
  by code_simp

lemma ServeHTTP_sent:
  "http_sent (fst (ServeHTTP NewResponseWriter request)) =
     Header_empty(''X-Ext-Authz-Result'' :=
       [if Header_Get (Header request) checkHeader = ''allow'' then ''allowed'' else ''denied''])"
  by (simp add: ServeHTTP_def http_sent_def WriteHeader_def rw_Header_Set_def
      NewResponseWriter_def allowedValue_def eq_commute Header_Set_def canon_resultHeader)

lemma ServeHTTP_bearer_sent:
  "http_sent (fst (ServeHTTP_bearer NewResponseWriter request)) =
     (if Header_Get (Header request) ''Authorization'' = ''Bearer allow''
      then Header_empty(''Set-Cookie'' := [''Ext-AuthZ-Custom-Cookie=abcd1234''])
      else Header_empty)"
  by (simp add: ServeHTTP_bearer_def http_sent_def WriteHeader_def rw_Header_Set_def
      NewResponseWriter_def check_iff Let_def Header_Set_def canon_Set_Cookie)

lemma upper_to_lower:
  "isUpperASCII c \<Longrightarrow> isLowerASCII (toLowerASCII c) \<and> toUpperASCII (toLowerASCII c) = c
     \<and> \<not> isLowerASCII c \<and> \<not> isUpperASCII (toLowerASCII c)"
  unfolding isUpperASCII_def isLowerASCII_def toLowerASCII_def toUpperASCII_def less_eq_char_def
  by auto

lemma not_upper_to_lower: "\<not> isUpperASCII c \<Longrightarrow> toLowerASCII c = c"
  by (simp add: toLowerASCII_def)

lemma valid_toLower: "validHeaderFieldByte (toLowerASCII c) = validHeaderFieldByte c"
proof (cases "isUpperASCII c")
  case True
  with upper_to_lower [OF True] show ?thesis by (simp add: validHeaderFieldByte_def)
next
  case False
  then show ?thesis by (simp add: not_upper_to_lower)
qed

lemma canonicalize_toLower: "canonicalize u (map toLowerASCII s) = canonicalize u s"
proof (induction s arbitrary: u)
  case Nil
  show ?case by simp
next
  case (Cons c cs)
  show ?case
  proof (cases "isUpperASCII c")
    case True
    note f = upper_to_lower [OF True]
    from f True show ?thesis by (cases u) (simp_all add: Cons.IH Let_def)
  next
    case False
    then show ?thesis by (simp add: not_upper_to_lower Cons.IH Let_def)
  qed
qed

lemma Canonical_case_insensitive:
  assumes "map toLowerASCII a = map toLowerASCII b" and "list_all validHeaderFieldByte a"
  shows "CanonicalMIMEHeaderKey a = CanonicalMIMEHeaderKey b"
proof -
  have "list_all validHeaderFieldByte (map toLowerASCII s) = list_all validHeaderFieldByte s" for s
    by (induction s) (simp_all add: valid_toLower)
  with assms have "list_all validHeaderFieldByte b" by metis
  moreover have "canonicalize True a = canonicalize True b"
    using assms(1) canonicalize_toLower by metis
  ultimately show ?thesis using assms(2) by (simp add: CanonicalMIMEHeaderKey_def)
qed

lemma Canonical_of_checkHeader_variant:
  assumes "map toLowerASCII name = checkHeader"
  shows "CanonicalMIMEHeaderKey name = CanonicalMIMEHeaderKey checkHeader"
proof -
  have l: "map toLowerASCII checkHeader = checkHeader" by code_simp
  have v: "list_all validHeaderFieldByte checkHeader" by code_simp
  have "list_all validHeaderFieldByte (map toLowerASCII s) = list_all validHeaderFieldByte s" for s
    by (induction s) (simp_all add: valid_toLower)
  with assms v have "list_all validHeaderFieldByte name" by metis
  with assms l show ?thesis using Canonical_case_insensitive by metis
qed

lemma ReadMIMEHeader_append:
  "ReadMIMEHeader h (xs @ ys) = ReadMIMEHeader (ReadMIMEHeader h xs) ys"
  by (induction h xs rule: ReadMIMEHeader.induct) simp_all

lemma Header_Add_cong:
  "CanonicalMIMEHeaderKey a = CanonicalMIMEHeaderKey b \<Longrightarrow> Header_Add h a v = Header_Add h b v"
  by (simp add: Header_Add_def)







text \<open>
The example requests carry the credentials of both servers.
\<close>

lemma example_rpc_credentials:
  "rpc_credential (Some example_rpc_a) checkHeader = ''allow''"
  "rpc_credential (Some example_rpc_b) checkHeader = ''allow''"
  "rpc_credential (Some example_rpc_a) ''Authorization'' = ''Bearer allow''"
  "rpc_credential (Some example_rpc_b) ''Authorization'' = ''Bearer allow''"
  by (simp_all add: rpc_credential_def example_rpc_a_def example_rpc_b_def GetAttributes_def
      GetRequest_def GetHttp_def GetHeaders_def map_index_def checkHeader_def)

lemma example_http_credentials:
  "Header_Get (Header example_http_a) checkHeader = ''allow''"
  "Header_Get (Header example_http_b) checkHeader = ''allow''"
  "Header_Get (Header example_http_a) ''Authorization'' = ''Bearer allow''"
  "Header_Get (Header example_http_b) ''Authorization'' = ''Bearer allow''"
  by code_simp+

lemma examples_differ: "example_rpc_a \<noteq> example_rpc_b" "example_http_a \<noteq> example_http_b"
  by (simp_all add: example_rpc_a_def example_rpc_b_def example_http_a_def example_http_b_def)

text \<open>
The listeners: each calls \<^verbatim>\<open>net.Listen\<close> once, on the address it is given.
\<close>

lemma startGRPC_cases:
  "listened (fst (startGRPC e a)) = [a] \<and> snd (startGRPC e a) \<in> {Exits 1, Returns, Blocks}"
  by (simp add: startGRPC_def Let_def split: sum.split serve_result.split option.split)

lemma startHTTP_cases:
  "listened (fst (startHTTP e a)) = [a] \<and> snd (startHTTP e a) \<in> {Exits 1, Returns, Blocks}"
  by (simp add: startHTTP_def Let_def split: sum.split serve_result.split option.split)

lemma startGRPC_bearer_cases:
  "listened (fst (startGRPC_bearer e a)) = [a] \<and> snd (startGRPC_bearer e a) \<in> {Returns, Blocks}"
  by (simp add: startGRPC_bearer_def Let_def split: sum.split serve_result.split option.split)

lemma startHTTP_bearer_cases:
  "listened (fst (startHTTP_bearer e a)) = [a] \<and> snd (startHTTP_bearer e a) \<in> {Returns, Blocks}"
  by (simp add: startHTTP_bearer_def ListenAndServe_def Let_def
      split: sum.split serve_result.split option.split)

lemma startGRPC_bind_fails: "isl (grpc_Listen e a) \<Longrightarrow> snd (startGRPC e a) = Exits 1"
  by (cases "grpc_Listen e a") (simp_all add: startGRPC_def)

lemma startHTTP_bind_fails: "isl (http_Listen e a) \<Longrightarrow> snd (startHTTP e a) = Exits 1"
  by (cases "http_Listen e a") (simp_all add: startHTTP_def)

lemma startGRPC_bearer_bind_fails:
  "isl (grpc_Listen e a) \<Longrightarrow> snd (startGRPC_bearer e a) = Returns"
  by (cases "grpc_Listen e a") (simp_all add: startGRPC_bearer_def)

lemma startHTTP_bearer_bind_fails:
  "isl (http_Listen e a) \<Longrightarrow> snd (startHTTP_bearer e a) = Returns"
  by (cases "http_Listen e a") (simp_all add: startHTTP_bearer_def ListenAndServe_def)

lemma wg_Wait_Exits_right:
  "g \<in> {Exits 1, Returns, Blocks} \<Longrightarrow> wg_Wait g (Exits 1) = Exited 1"
  by auto

subsection \<open>The decision rules\<close>

text \<open>
  Claim C2. Exact-match rule: a request that carries the value \<open>v\<close> under the header
  \<^verbatim>\<open>x-ext-authz\<close> is allowed iff \<open>v\<close> is exactly the string \<^verbatim>\<open>allow\<close>, whatever its other
  headers and fields; a request without the header is denied. On the gRPC path allowed
  is the status code \<open>rpc_OK\<close> and denied is \<open>rpc_PERMISSION_DENIED\<close>, on the HTTP path
  they are the statuses 200 and 403.
\<close>

theorem exact_match_rule:
  "rpc_code (Check (rpc_request m h p (hs(checkHeader \<mapsto> v)))) =
     Some (if v = ''allow'' then rpc_OK else rpc_PERMISSION_DENIED)
   \<and> rpc_code (Check (rpc_request m h p (hs(checkHeader := None)))) =
     Some rpc_PERMISSION_DENIED
   \<and> http_status (fst (ServeHTTP NewResponseWriter
        (q\<lparr>Header := Header_Set hdr checkHeader v\<rparr>))) =
     Some (if v = ''allow'' then StatusOK else StatusForbidden)
   \<and> http_status (fst (ServeHTTP NewResponseWriter
        (q\<lparr>Header := hdr(CanonicalMIMEHeaderKey checkHeader := [])\<rparr>))) =
     Some StatusForbidden"
proof -
  have a: "rpc_code (Check (rpc_request m h p (hs(checkHeader \<mapsto> v)))) =
     Some (if v = ''allow'' then rpc_OK else rpc_PERMISSION_DENIED)"
    by (simp add: Check_code map_index_def)
  have b: "rpc_code (Check (rpc_request m h p (hs(checkHeader := None)))) =
     Some rpc_PERMISSION_DENIED"
    by (simp add: Check_code map_index_def)
  have d: "http_status (fst (ServeHTTP NewResponseWriter
        (q\<lparr>Header := hdr(CanonicalMIMEHeaderKey checkHeader := [])\<rparr>))) =
     Some StatusForbidden"
    by (simp add: ServeHTTP_status Header_Get_def)
  from a b ServeHTTP_status_Set d show ?thesis by blast
qed

text \<open>
  Claim C3. Bearer-token rule: \<open>check\<close> agrees with the rule as the specification words
  it; a value made of the prefix \<^verbatim>\<open>Bearer \<close> and a token is allowed iff the token is
  \<^verbatim>\<open>allow\<close>; so the one allowed value is \<^verbatim>\<open>Bearer allow\<close>. The prefix is matched
  case-sensitively: \<^verbatim>\<open>bearer allow\<close> is denied, and so is \<^verbatim>\<open>allow\<close> without a prefix.
\<close>

theorem bearer_token_rule:
  "check v = bearer_rule_spec v
   \<and> check (''Bearer '' @ token) = (token = ''allow'')
   \<and> check v = (v = ''Bearer allow'')
   \<and> check ''bearer allow'' = False
   \<and> check ''allow'' = False"
proof -
  have a: "check v = bearer_rule_spec v"
  proof (cases "HasPrefix v ''Bearer ''")
    case True
    then obtain t where "v = ''Bearer '' @ t" by (auto simp: HasPrefix_iff)
    then show ?thesis by (simp only: check_append) (simp add: bearer_rule_spec_def)
  next
    case False
    then have "\<not> prefix ''Bearer '' v" by (auto simp: HasPrefix_iff prefix_def)
    with False show ?thesis by (simp add: check_no_prefix bearer_rule_spec_def)
  qed
  have c: "check ''bearer allow'' = False" "check ''allow'' = False"
    by (simp_all add: check_iff)
  from a c check_append check_iff show ?thesis by blast
qed

subsection \<open>From the verdict to the response\<close>

text \<open>
  Claim C4. Every check answers in one of two shapes. In the exact-match server an
  allowed request gets gRPC status code 0, or HTTP status 200, with the header
  \<^verbatim>\<open>x-ext-authz-result: allowed\<close>, and a denied one gets code 7, or status 403, with
  \<^verbatim>\<open>x-ext-authz-result: denied\<close> (the HTTP response holds it under the canonical name
  \<^verbatim>\<open>X-Ext-Authz-Result\<close>). In the bearer-token server an allowed request gets code 0, or
  status 200, with one \<^verbatim>\<open>Set-Cookie\<close> header, and a denied one gets code 7, or status 403,
  and no header.
\<close>

theorem verdict_response_mapping:
  "(rpc_code (Check request), rpc_headers (Check request)) =
     (if rpc_credential request checkHeader = allowedValue
      then (Some 0, [(''x-ext-authz-result'', ''allowed'')])
      else (Some 7, [(''x-ext-authz-result'', ''denied'')]))
   \<and> (let w = fst (ServeHTTP NewResponseWriter q)
      in (http_status w, http_sent w, Header_Get (http_sent w) ''x-ext-authz-result'')) =
     (if Header_Get (Header q) checkHeader = allowedValue
      then (Some 200, Header_empty(''X-Ext-Authz-Result'' := [''allowed'']), ''allowed'')
      else (Some 403, Header_empty(''X-Ext-Authz-Result'' := [''denied'']), ''denied''))
   \<and> (\<exists>res. Check_bearer (Some r) = Inr res
        \<and> (rpc_code res, rpc_headers res) =
          (if check (rpc_credential (Some r) ''Authorization'')
           then (Some 0, [(''Set-Cookie'', ''xt-AuthZ-Custom-Cookie=abcd5678'')])
           else (Some 7, [])))
   \<and> (let w = fst (ServeHTTP_bearer NewResponseWriter q)
      in (http_status w, http_sent w)) =
     (if check (Header_Get (Header q) ''Authorization'')
      then (Some 200, Header_empty(''Set-Cookie'' := [''Ext-AuthZ-Custom-Cookie=abcd1234'']))
      else (Some 403, Header_empty))"
proof -
  have a: "(rpc_code (Check request), rpc_headers (Check request)) =
     (if rpc_credential request checkHeader = allowedValue
      then (Some 0, [(''x-ext-authz-result'', ''allowed'')])
      else (Some 7, [(''x-ext-authz-result'', ''denied'')]))"
    by (simp add: Check_code Check_headers allowedValue_def rpc_OK_def rpc_PERMISSION_DENIED_def)
  have g: "Header_Get (Header_empty(''X-Ext-Authz-Result'' := [x])) ''x-ext-authz-result'' = x" for x
    using canon_resultHeader by (simp add: Header_Get_def resultHeader_def)
  have b: "(let w = fst (ServeHTTP NewResponseWriter q)
      in (http_status w, http_sent w, Header_Get (http_sent w) ''x-ext-authz-result'')) =
     (if Header_Get (Header q) checkHeader = allowedValue
      then (Some 200, Header_empty(''X-Ext-Authz-Result'' := [''allowed'']), ''allowed'')
      else (Some 403, Header_empty(''X-Ext-Authz-Result'' := [''denied'']), ''denied''))"
    unfolding Let_def ServeHTTP_status ServeHTTP_sent g
    by (simp add: allowedValue_def StatusOK_def StatusForbidden_def)
  have c: "\<exists>res. Check_bearer (Some r) = Inr res
        \<and> (rpc_code res, rpc_headers res) =
          (if check (rpc_credential (Some r) ''Authorization'')
           then (Some 0, [(''Set-Cookie'', ''xt-AuthZ-Custom-Cookie=abcd5678'')])
           else (Some 7, []))"
    unfolding Check_bearer_Some
    by (simp add: check_iff rpc_code_def rpc_headers_def rpc_OK_def rpc_PERMISSION_DENIED_def)
  have d: "(let w = fst (ServeHTTP_bearer NewResponseWriter q)
      in (http_status w, http_sent w)) =
     (if check (Header_Get (Header q) ''Authorization'')
      then (Some 200, Header_empty(''Set-Cookie'' := [''Ext-AuthZ-Custom-Cookie=abcd1234'']))
      else (Some 403, Header_empty))"
    unfolding Let_def ServeHTTP_bearer_status ServeHTTP_bearer_sent
    by (simp add: check_iff StatusOK_def StatusForbidden_def)
  from a b c d show ?thesis by blast
qed

text \<open>
  Claim C10. In the bearer-token server the allowed responses of the two protocols
  differ: every allowed gRPC response injects \<^verbatim>\<open>Set-Cookie: xt-AuthZ-Custom-Cookie=abcd5678\<close>
  and every allowed HTTP response sends \<^verbatim>\<open>Set-Cookie: Ext-AuthZ-Custom-Cookie=abcd1234\<close>,
  so the cookies differ.
\<close>

theorem bearer_cookie_differs_by_protocol:
  "(Check_bearer request = Inr res \<and> rpc_code res = Some rpc_OK \<longrightarrow>
      rpc_headers res = [(''Set-Cookie'', ''xt-AuthZ-Custom-Cookie=abcd5678'')])
   \<and> (http_status (fst (ServeHTTP_bearer NewResponseWriter q)) = Some StatusOK \<longrightarrow>
      http_sent (fst (ServeHTTP_bearer NewResponseWriter q)) =
        Header_empty(''Set-Cookie'' := [''Ext-AuthZ-Custom-Cookie=abcd1234'']))
   \<and> (Check_bearer request = Inr res \<and> rpc_code res = Some rpc_OK
       \<and> http_status (fst (ServeHTTP_bearer NewResponseWriter q)) = Some StatusOK \<longrightarrow>
      map snd (rpc_headers res) \<noteq>
        http_sent (fst (ServeHTTP_bearer NewResponseWriter q)) ''Set-Cookie'')"
proof -
  have codes: "rpc_OK \<noteq> rpc_PERMISSION_DENIED" "StatusOK \<noteq> StatusForbidden"
    by (simp_all add: rpc_OK_def rpc_PERMISSION_DENIED_def StatusOK_def StatusForbidden_def)
  have a: "Check_bearer request = Inr res \<and> rpc_code res = Some rpc_OK \<longrightarrow>
      rpc_headers res = [(''Set-Cookie'', ''xt-AuthZ-Custom-Cookie=abcd5678'')]"
  proof (cases request)
    case None
    then show ?thesis by (simp add: Check_bearer_def)
  next
    case (Some r)
    show ?thesis using codes unfolding Some Check_bearer_Some
      by (auto simp: rpc_code_def rpc_headers_def split: if_splits)
  qed
  have b: "http_status (fst (ServeHTTP_bearer NewResponseWriter q)) = Some StatusOK \<longrightarrow>
      http_sent (fst (ServeHTTP_bearer NewResponseWriter q)) =
        Header_empty(''Set-Cookie'' := [''Ext-AuthZ-Custom-Cookie=abcd1234''])"
    using codes unfolding ServeHTTP_bearer_status ServeHTTP_bearer_sent by simp
  from a b show ?thesis by auto
qed

theorem bearer_cookie_differs_by_protocol_witness:
  "\<exists>res. Check_bearer (Some example_rpc_a) = Inr res \<and> rpc_code res = Some rpc_OK
     \<and> http_status (fst (ServeHTTP_bearer NewResponseWriter example_http_a)) = Some StatusOK
     \<and> rpc_headers res = [(''Set-Cookie'', ''xt-AuthZ-Custom-Cookie=abcd5678'')]
     \<and> http_sent (fst (ServeHTTP_bearer NewResponseWriter example_http_a)) =
         Header_empty(''Set-Cookie'' := [''Ext-AuthZ-Custom-Cookie=abcd1234''])
     \<and> map snd (rpc_headers res) \<noteq>
         http_sent (fst (ServeHTTP_bearer NewResponseWriter example_http_a)) ''Set-Cookie''"
proof -
  obtain res where r: "Check_bearer (Some example_rpc_a) = Inr res" "rpc_code res = Some rpc_OK"
    unfolding Check_bearer_Some by (simp add: example_rpc_credentials rpc_code_def)
  have h: "http_status (fst (ServeHTTP_bearer NewResponseWriter example_http_a)) = Some StatusOK"
    by (simp add: ServeHTTP_bearer_status example_http_credentials)
  show ?thesis
    using r h bearer_cookie_differs_by_protocol [of "Some example_rpc_a" res example_http_a]
    by blast
qed

subsection \<open>The credential alone decides\<close>




text \<open>
  Claim C7. Noninterference: in each server and on each protocol, two requests whose
  credential header values are equal get the same response, whatever their methods,
  hosts, paths and other headers; only the logged lines may differ.
\<close>

theorem response_depends_on_credential_only:
  "(rpc_credential r1 checkHeader = rpc_credential r2 checkHeader \<longrightarrow>
      rpc_response (Check r1) = rpc_response (Check r2)
      \<and> rpc_err (Check r1) = rpc_err (Check r2))
   \<and> (Header_Get (Header q1) checkHeader = Header_Get (Header q2) checkHeader \<longrightarrow>
      fst (ServeHTTP w q1) = fst (ServeHTTP w q2))
   \<and> (rpc_credential (Some b1) ''Authorization'' = rpc_credential (Some b2) ''Authorization'' \<longrightarrow>
      (\<exists>res1 res2. Check_bearer (Some b1) = Inr res1 \<and> Check_bearer (Some b2) = Inr res2
         \<and> rpc_response res1 = rpc_response res2 \<and> rpc_err res1 = rpc_err res2))
   \<and> (Header_Get (Header q1) ''Authorization'' = Header_Get (Header q2) ''Authorization'' \<longrightarrow>
      fst (ServeHTTP_bearer w q1) = fst (ServeHTTP_bearer w q2))"
proof -
  have a: "rpc_credential r1 checkHeader = rpc_credential r2 checkHeader \<longrightarrow>
      rpc_response (Check r1) = rpc_response (Check r2)
      \<and> rpc_err (Check r1) = rpc_err (Check r2)"
    by (simp add: Check_response Check_err)
  have b: "Header_Get (Header q1) checkHeader = Header_Get (Header q2) checkHeader \<longrightarrow>
      fst (ServeHTTP w q1) = fst (ServeHTTP w q2)"
    by (simp add: ServeHTTP_writer)
  have c: "rpc_credential (Some b1) ''Authorization'' = rpc_credential (Some b2) ''Authorization'' \<longrightarrow>
      (\<exists>res1 res2. Check_bearer (Some b1) = Inr res1 \<and> Check_bearer (Some b2) = Inr res2
         \<and> rpc_response res1 = rpc_response res2 \<and> rpc_err res1 = rpc_err res2)"
    unfolding Check_bearer_Some by simp
  have d: "Header_Get (Header q1) ''Authorization'' = Header_Get (Header q2) ''Authorization'' \<longrightarrow>
      fst (ServeHTTP_bearer w q1) = fst (ServeHTTP_bearer w q2)"
    by (simp add: ServeHTTP_bearer_writer)
  from a b c d show ?thesis by blast
qed

theorem response_depends_on_credential_only_witness:
  "rpc_credential (Some example_rpc_a) checkHeader = rpc_credential (Some example_rpc_b) checkHeader
   \<and> Header_Get (Header example_http_a) checkHeader = Header_Get (Header example_http_b) checkHeader
   \<and> rpc_credential (Some example_rpc_a) ''Authorization'' =
       rpc_credential (Some example_rpc_b) ''Authorization''
   \<and> Header_Get (Header example_http_a) ''Authorization'' =
       Header_Get (Header example_http_b) ''Authorization''
   \<and> example_rpc_a \<noteq> example_rpc_b \<and> example_http_a \<noteq> example_http_b
   \<and> rpc_response (Check (Some example_rpc_a)) = rpc_response (Check (Some example_rpc_b))
   \<and> fst (ServeHTTP NewResponseWriter example_http_a) =
       fst (ServeHTTP NewResponseWriter example_http_b)
   \<and> (\<exists>res1 res2. Check_bearer (Some example_rpc_a) = Inr res1
         \<and> Check_bearer (Some example_rpc_b) = Inr res2
         \<and> rpc_response res1 = rpc_response res2)
   \<and> fst (ServeHTTP_bearer NewResponseWriter example_http_a) =
       fst (ServeHTTP_bearer NewResponseWriter example_http_b)"
proof -
  have h1: "rpc_credential (Some example_rpc_a) checkHeader =
            rpc_credential (Some example_rpc_b) checkHeader"
    by (simp add: example_rpc_credentials)
  have h2: "Header_Get (Header example_http_a) checkHeader =
            Header_Get (Header example_http_b) checkHeader"
    by (simp add: example_http_credentials)
  have h3: "rpc_credential (Some example_rpc_a) ''Authorization'' =
            rpc_credential (Some example_rpc_b) ''Authorization''"
    by (simp add: example_rpc_credentials)
  have h4: "Header_Get (Header example_http_a) ''Authorization'' =
            Header_Get (Header example_http_b) ''Authorization''"
    by (simp add: example_http_credentials)
  show ?thesis
    using h1 h2 h3 h4 examples_differ
      response_depends_on_credential_only [of "Some example_rpc_a" "Some example_rpc_b" example_http_a
        example_http_b NewResponseWriter example_rpc_a example_rpc_b]
    by blast
qed

subsection \<open>Requests without attributes\<close>

text \<open>
  Claim C8. Both versions of \<open>Check\<close> return, for every request message, a response
  with a status and a nil error. When the attributes, the request, the HTTP attributes
  or the headers map are absent, the status is \<open>rpc_PERMISSION_DENIED\<close>. The exact-match
  version does so on a nil request pointer too.
\<close>

theorem check_total_on_missing_attributes:
  "rpc_err (Check request) = None
   \<and> (\<exists>resp st. rpc_response (Check request) = Some resp \<and> Status resp = Some st
        \<and> (Code st = rpc_OK \<or> Code st = rpc_PERMISSION_DENIED))
   \<and> rpc_code (Check None) = Some rpc_PERMISSION_DENIED
   \<and> rpc_code (Check (Some \<lparr>Attributes = None\<rparr>)) = Some rpc_PERMISSION_DENIED
   \<and> rpc_code (Check (Some \<lparr>Attributes = Some \<lparr>Request = None\<rparr>\<rparr>)) =
       Some rpc_PERMISSION_DENIED
   \<and> rpc_code (Check (Some \<lparr>Attributes = Some \<lparr>Request = Some \<lparr>Http = None\<rparr>\<rparr>\<rparr>)) =
       Some rpc_PERMISSION_DENIED
   \<and> rpc_code (Check (rpc_request m h p Map.empty)) = Some rpc_PERMISSION_DENIED
   \<and> (\<exists>res resp st. Check_bearer (Some r) = Inr res \<and> rpc_err res = None
        \<and> rpc_response res = Some resp \<and> Status resp = Some st
        \<and> (Code st = rpc_OK \<or> Code st = rpc_PERMISSION_DENIED))
   \<and> (\<exists>res. Check_bearer (Some \<lparr>Attributes = None\<rparr>) = Inr res
        \<and> rpc_err res = None \<and> rpc_code res = Some rpc_PERMISSION_DENIED)
   \<and> (\<exists>res. Check_bearer (Some \<lparr>Attributes = Some \<lparr>Request = None\<rparr>\<rparr>) = Inr res
        \<and> rpc_err res = None \<and> rpc_code res = Some rpc_PERMISSION_DENIED)
   \<and> (\<exists>res. Check_bearer (Some \<lparr>Attributes = Some \<lparr>Request = Some \<lparr>Http = None\<rparr>\<rparr>\<rparr>) = Inr res
        \<and> rpc_err res = None \<and> rpc_code res = Some rpc_PERMISSION_DENIED)
   \<and> (\<exists>res. Check_bearer (rpc_request m h p Map.empty) = Inr res
        \<and> rpc_err res = None \<and> rpc_code res = Some rpc_PERMISSION_DENIED)"
proof -
  have cred [simp]:
    "rpc_credential None key = []"
    "rpc_credential (Some \<lparr>Attributes = None\<rparr>) key = []"
    "rpc_credential (Some \<lparr>Attributes = Some \<lparr>Request = None\<rparr>\<rparr>) key = []"
    "rpc_credential (Some \<lparr>Attributes = Some \<lparr>Request = Some \<lparr>Http = None\<rparr>\<rparr>\<rparr>) key = []"
    for key
    by (simp_all add: rpc_credential_def GetAttributes_def GetRequest_def GetHttp_def
        GetHeaders_def map_index_def)
  have cred_empty [simp]: "rpc_credential (rpc_request m h p Map.empty) key = []" for key
    by (simp add: map_index_def)
  have a: "rpc_err (Check request) = None" by (rule Check_err)
  have b: "\<exists>resp st. rpc_response (Check request) = Some resp \<and> Status resp = Some st
        \<and> (Code st = rpc_OK \<or> Code st = rpc_PERMISSION_DENIED)"
    by (simp add: Check_response)
  have c: "rpc_code (Check None) = Some rpc_PERMISSION_DENIED"
    "rpc_code (Check (Some \<lparr>Attributes = None\<rparr>)) = Some rpc_PERMISSION_DENIED"
    "rpc_code (Check (Some \<lparr>Attributes = Some \<lparr>Request = None\<rparr>\<rparr>)) =
       Some rpc_PERMISSION_DENIED"
    "rpc_code (Check (Some \<lparr>Attributes = Some \<lparr>Request = Some \<lparr>Http = None\<rparr>\<rparr>\<rparr>)) =
       Some rpc_PERMISSION_DENIED"
    "rpc_code (Check (rpc_request m h p Map.empty)) = Some rpc_PERMISSION_DENIED"
    by (simp_all add: Check_code map_index_def)
  have d: "\<exists>res resp st. Check_bearer (Some r) = Inr res \<and> rpc_err res = None
        \<and> rpc_response res = Some resp \<and> Status resp = Some st
        \<and> (Code st = rpc_OK \<or> Code st = rpc_PERMISSION_DENIED)"
    unfolding Check_bearer_Some by simp
  have e: "\<exists>res. Check_bearer (Some \<lparr>Attributes = None\<rparr>) = Inr res
        \<and> rpc_err res = None \<and> rpc_code res = Some rpc_PERMISSION_DENIED"
    "\<exists>res. Check_bearer (Some \<lparr>Attributes = Some \<lparr>Request = None\<rparr>\<rparr>) = Inr res
        \<and> rpc_err res = None \<and> rpc_code res = Some rpc_PERMISSION_DENIED"
    "\<exists>res. Check_bearer (Some \<lparr>Attributes = Some \<lparr>Request = Some \<lparr>Http = None\<rparr>\<rparr>\<rparr>) = Inr res
        \<and> rpc_err res = None \<and> rpc_code res = Some rpc_PERMISSION_DENIED"
    unfolding Check_bearer_Some by (simp_all add: rpc_code_def)
  have f: "\<exists>res. Check_bearer (rpc_request m h p Map.empty) = Inr res
        \<and> rpc_err res = None \<and> rpc_code res = Some rpc_PERMISSION_DENIED"
    using cred_empty [of "''Authorization''"] unfolding rpc_request_def Check_bearer_Some
    by (simp add: rpc_code_def)
  from a b c d e f show ?thesis by blast
qed

subsection \<open>The spelling of the header name\<close>

text \<open>
  On the gRPC path the header name is matched exactly: \<^verbatim>\<open>allow\<close> under the key
  \<^verbatim>\<open>X-Ext-Authz\<close> is denied, under \<^verbatim>\<open>x-ext-authz\<close> it is allowed.
\<close>

theorem rpc_lookup_case_sensitive:
  "rpc_code (Check (rpc_request ''GET'' ''example.com'' ''/'' headers_capitalised)) =
     Some rpc_PERMISSION_DENIED
   \<and> rpc_code (Check (rpc_request ''GET'' ''example.com'' ''/'' headers_lower_case)) =
     Some rpc_OK
   \<and> rpc_code (Check (rpc_request ''GET'' ''example.com'' ''/'' headers_capitalised)) \<noteq>
     rpc_code (Check (rpc_request ''GET'' ''example.com'' ''/'' headers_lower_case))"
  by (simp add: Check_code map_index_def headers_capitalised_def headers_lower_case_def
      checkHeader_def rpc_OK_def rpc_PERMISSION_DENIED_def)

text \<open>
  Claim C9, amended. On the HTTP path the lookup of the credential header does not
  depend on the case of its name: a request that carries a value under any spelling of
  \<^verbatim>\<open>x-ext-authz\<close> is answered as the request that carries it under \<^verbatim>\<open>x-ext-authz\<close>
  itself. On the gRPC path the lookup is by the exact key: a request is allowed iff its
  headers map holds \<^verbatim>\<open>allow\<close> under the lower-case key \<^verbatim>\<open>x-ext-authz\<close>.
\<close>

theorem credential_lookup_case:
  "(map toLowerASCII name = checkHeader \<longrightarrow>
      ServeHTTP w (q\<lparr>Header := ReadMIMEHeader hdr (xs @ (name, v) # ys)\<rparr>) =
      ServeHTTP w (q\<lparr>Header := ReadMIMEHeader hdr (xs @ (checkHeader, v) # ys)\<rparr>))
   \<and> (rpc_code (Check (rpc_request m h p hs)) = Some rpc_OK) =
      (hs checkHeader = Some ''allow'')"
proof -
  have a: "map toLowerASCII name = checkHeader \<longrightarrow>
      ServeHTTP w (q\<lparr>Header := ReadMIMEHeader hdr (xs @ (name, v) # ys)\<rparr>) =
      ServeHTTP w (q\<lparr>Header := ReadMIMEHeader hdr (xs @ (checkHeader, v) # ys)\<rparr>)"
  proof
    assume "map toLowerASCII name = checkHeader"
    then have "Header_Add h' name v = Header_Add h' checkHeader v" for h'
      by (rule Header_Add_cong [OF Canonical_of_checkHeader_variant])
    then have "ReadMIMEHeader hdr (xs @ (name, v) # ys) =
               ReadMIMEHeader hdr (xs @ (checkHeader, v) # ys)"
      by (simp add: ReadMIMEHeader_append)
    then show "ServeHTTP w (q\<lparr>Header := ReadMIMEHeader hdr (xs @ (name, v) # ys)\<rparr>) =
      ServeHTTP w (q\<lparr>Header := ReadMIMEHeader hdr (xs @ (checkHeader, v) # ys)\<rparr>)"
      by simp
  qed
  have "rpc_OK \<noteq> rpc_PERMISSION_DENIED" by (simp add: rpc_OK_def rpc_PERMISSION_DENIED_def)
  then have b: "(rpc_code (Check (rpc_request m h p hs)) = Some rpc_OK) =
      (hs checkHeader = Some ''allow'')"
    by (cases "hs checkHeader") (simp_all add: Check_code map_index_def)
  from a b show ?thesis by blast
qed

theorem credential_lookup_case_witness:
  "map toLowerASCII ''X-Ext-Authz'' = checkHeader
   \<and> ServeHTTP NewResponseWriter
        (example_http_a\<lparr>Header := ReadMIMEHeader Header_empty
           ([(''User-Agent'', ''curl'')] @ (''X-Ext-Authz'', ''allow'') # [])\<rparr>) =
      ServeHTTP NewResponseWriter
        (example_http_a\<lparr>Header := ReadMIMEHeader Header_empty
           ([(''User-Agent'', ''curl'')] @ (checkHeader, ''allow'') # [])\<rparr>)"
proof -
  have h: "map toLowerASCII ''X-Ext-Authz'' = checkHeader" by code_simp
  show ?thesis
    using h credential_lookup_case [where name = "''X-Ext-Authz''" and w = NewResponseWriter
        and q = example_http_a and hdr = Header_empty
        and xs = "[(''User-Agent'', ''curl'')]" and v = "''allow''" and ys = "[]"]
    by blast
qed

subsection \<open>Listeners\<close>

text \<open>
  Claim C1. In the exact-match server \<open>run\<close> hands the HTTP address to the gRPC
  listener and the gRPC address to the HTTP listener: with the default flags the gRPC
  listener binds \<^verbatim>\<open>:8000\<close> and the HTTP listener binds \<^verbatim>\<open>:9000\<close>. The bearer-token server
  gives each listener its own port.
\<close>

theorem listeners_bind_swapped_ports:
  "listened (fst (grpc_run (main e default_flags))) = ['':8000'']
   \<and> listened (fst (http_run (main e default_flags))) = ['':9000'']
   \<and> listened (fst (grpc_run (main e f))) = ['':'' @ httpPort f]
   \<and> listened (fst (http_run (main e f))) = ['':'' @ grpcPort f]
   \<and> listened (fst (grpc_run (main_bearer e f))) = ['':'' @ grpcPort f]
   \<and> listened (fst (http_run (main_bearer e f))) = ['':'' @ httpPort f]"
  by (simp add: main_def run_def main_bearer_def Let_def default_flags_def
      startGRPC_cases startHTTP_cases startGRPC_bearer_cases startHTTP_bearer_cases)

text \<open>
  In the bearer-token server a bind failure does not end the process: when the gRPC
  port is taken, the gRPC goroutine returns and the process runs on with the HTTP
  listener, and the other way round.
\<close>

theorem bearer_bind_failure_not_fatal:
  "isl (grpc_Listen env_grpc_port_taken ('':'' @ grpcPort default_flags))
   \<and> snd (grpc_run (main_bearer env_grpc_port_taken default_flags)) = Returns
   \<and> snd (http_run (main_bearer env_grpc_port_taken default_flags)) = Blocks
   \<and> ended (main_bearer env_grpc_port_taken default_flags) = Running
   \<and> isl (http_Listen env_http_port_taken ('':'' @ httpPort default_flags))
   \<and> snd (http_run (main_bearer env_http_port_taken default_flags)) = Returns
   \<and> snd (grpc_run (main_bearer env_http_port_taken default_flags)) = Blocks
   \<and> ended (main_bearer env_http_port_taken default_flags) = Running"
  by (simp add: main_bearer_def startGRPC_bearer_def startHTTP_bearer_def ListenAndServe_def
      env_grpc_port_taken_def env_http_port_taken_def Let_def)

text \<open>
  Claim C6, amended. In the exact-match server a bind failure of either listener is
  fatal: the listener calls \<^verbatim>\<open>net.Listen\<close> once and the process exits with status 1. In
  the bearer-token server a bind failure is logged: the listener calls \<^verbatim>\<open>net.Listen\<close>
  once and its goroutine returns; the process runs on while the other listener serves,
  and exits with status 0 once the other goroutine has returned too.
\<close>

theorem bind_failure_outcome:
  "(isl (grpc_Listen e a) \<longrightarrow>
      listened (fst (startGRPC e a)) = [a] \<and> snd (startGRPC e a) = Exits 1
      \<and> ended (run e a b) = Exited 1)
   \<and> (isl (http_Listen e b) \<longrightarrow>
      listened (fst (startHTTP e b)) = [b] \<and> snd (startHTTP e b) = Exits 1
      \<and> ended (run e a b) = Exited 1)
   \<and> (isl (grpc_Listen e ('':'' @ grpcPort f)) \<longrightarrow>
      listened (fst (grpc_run (main_bearer e f))) = ['':'' @ grpcPort f]
      \<and> snd (grpc_run (main_bearer e f)) = Returns
      \<and> ended (main_bearer e f) =
          (if snd (http_run (main_bearer e f)) = Returns then Exited 0 else Running))
   \<and> (isl (http_Listen e ('':'' @ httpPort f)) \<longrightarrow>
      listened (fst (http_run (main_bearer e f))) = ['':'' @ httpPort f]
      \<and> snd (http_run (main_bearer e f)) = Returns
      \<and> ended (main_bearer e f) =
          (if snd (grpc_run (main_bearer e f)) = Returns then Exited 0 else Running))"
proof -
  have a: "isl (grpc_Listen e a) \<longrightarrow>
      listened (fst (startGRPC e a)) = [a] \<and> snd (startGRPC e a) = Exits 1
      \<and> ended (run e a b) = Exited 1"
    by (simp add: startGRPC_cases startGRPC_bind_fails run_def Let_def)
  have b: "isl (http_Listen e b) \<longrightarrow>
      listened (fst (startHTTP e b)) = [b] \<and> snd (startHTTP e b) = Exits 1
      \<and> ended (run e a b) = Exited 1"
    using startGRPC_cases [of e a] wg_Wait_Exits_right
    by (simp add: startHTTP_cases startHTTP_bind_fails run_def Let_def)
  have c: "isl (grpc_Listen e ('':'' @ grpcPort f)) \<longrightarrow>
      listened (fst (grpc_run (main_bearer e f))) = ['':'' @ grpcPort f]
      \<and> snd (grpc_run (main_bearer e f)) = Returns
      \<and> ended (main_bearer e f) =
          (if snd (http_run (main_bearer e f)) = Returns then Exited 0 else Running)"
    using startHTTP_bearer_cases [of e "'':'' @ httpPort f"]
    by (auto simp: main_bearer_def Let_def startGRPC_bearer_cases startGRPC_bearer_bind_fails)
  have d: "isl (http_Listen e ('':'' @ httpPort f)) \<longrightarrow>
      listened (fst (http_run (main_bearer e f))) = ['':'' @ httpPort f]
      \<and> snd (http_run (main_bearer e f)) = Returns
      \<and> ended (main_bearer e f) =
          (if snd (grpc_run (main_bearer e f)) = Returns then Exited 0 else Running)"
    using startGRPC_bearer_cases [of e "'':'' @ grpcPort f"]
    by (auto simp: main_bearer_def Let_def startHTTP_bearer_cases startHTTP_bearer_bind_fails)
  from a b c d show ?thesis by blast
qed

theorem bind_failure_outcome_witness:
  "isl (grpc_Listen env_grpc_port_taken '':8000'')
   \<and> ended (run env_grpc_port_taken '':8000'' '':9000'') = Exited 1
   \<and> isl (http_Listen env_http_port_taken '':9000'')
   \<and> ended (run env_http_port_taken '':8000'' '':9000'') = Exited 1
   \<and> isl (grpc_Listen env_grpc_port_taken ('':'' @ grpcPort default_flags))
   \<and> snd (grpc_run (main_bearer env_grpc_port_taken default_flags)) = Returns
   \<and> isl (http_Listen env_http_port_taken ('':'' @ httpPort default_flags))
   \<and> snd (http_run (main_bearer env_http_port_taken default_flags)) = Returns"
proof -
  have h1: "isl (grpc_Listen env_grpc_port_taken a)" for a
    by (simp add: env_grpc_port_taken_def)
  have h2: "isl (http_Listen env_http_port_taken a)" for a
    by (simp add: env_http_port_taken_def)
  show ?thesis
    using h1 h2
      bind_failure_outcome [of env_grpc_port_taken "'':8000''" "'':9000''" default_flags]
      bind_failure_outcome [of env_http_port_taken "'':8000''" "'':9000''" default_flags]
    by blast
qed

end
